theory Spec2Isabelle
  imports Main "HOL-Library.Char_ord" "HOL-Library.List_Lexorder"
begin

section \<open>Strings and numbers as the program prints them\<close>

text \<open>
  A JavaScript string is modelled as a \<open>string\<close> (a list of 8-bit characters). Every
  string that the share link serialises is ASCII: the output alphabet of lz-string's
  \<open>compressToEncodedURIComponent\<close>, the string value of an enum member, and the
  decimal form of a number.

  \<open>String(n)\<close> for an integral number \<open>n\<close>: the decimal digits, with a leading minus
  sign for a negative number (numbers of magnitude \<open>10^21\<close> and more, which JavaScript
  prints with an exponent, are no execution times).
\<close>

fun nat_to_string :: "nat \<Rightarrow> string" where
  "nat_to_string n =
     (if n < 10 then [char_of (48 + n)]
      else nat_to_string (n div 10) @ [char_of (48 + n mod 10)])"

definition number_to_string :: "int \<Rightarrow> string" where
  "number_to_string i =
     (if i < 0 then CHR ''-'' # nat_to_string (nat (- i)) else nat_to_string (nat i))"

section \<open>The query string\<close>

subsection \<open>Percent-encoding\<close>

text \<open>
  Modelled from the spec: \<open>qs.stringify\<close> of the package query-string and
  \<open>parseQuery\<close> of commons/utils/QueryHelper are not under src/; the definitions of
  this section stand for them. The spec (4.1) says that the fields are serialised "as a
  query string using a stable key order and standard percent-encoding". Standard
  percent-encoding leaves the unreserved characters (letters, digits, \<open>-\<close>, \<open>_\<close>,
  \<open>.\<close>, \<open>~\<close>) and writes every other byte as \<open>%\<close> and two upper-case hexadecimal
  digits.
\<close>

definition unreserved :: "char \<Rightarrow> bool" where
  "unreserved c =
     (let n = (of_char c :: nat)
      in (65 \<le> n \<and> n \<le> 90) \<or> (97 \<le> n \<and> n \<le> 122) \<or> (48 \<le> n \<and> n \<le> 57)
         \<or> n = 45 \<or> n = 95 \<or> n = 46 \<or> n = 126)"

definition hexdigit :: "nat \<Rightarrow> char" where
  "hexdigit n = (if n < 10 then char_of (48 + n) else char_of (55 + n))"

definition unhexdigit :: "char \<Rightarrow> nat option" where
  "unhexdigit c =
     (let n = (of_char c :: nat)
      in if 48 \<le> n \<and> n \<le> 57 then Some (n - 48)
         else if 65 \<le> n \<and> n \<le> 70 then Some (n - 55)
         else if 97 \<le> n \<and> n \<le> 102 then Some (n - 87)
         else None)"

definition pct_char :: "char \<Rightarrow> string" where
  "pct_char c =
     (if unreserved c then [c]
      else [CHR ''%'', hexdigit (of_char c div 16), hexdigit (of_char c mod 16)])"

definition encodeURIComponent :: "string \<Rightarrow> string" where
  "encodeURIComponent s = concat (map pct_char s)"

text \<open>
  Decoding reads \<open>%XY\<close> back as one byte and keeps everything else, a malformed escape
  included.
\<close>

fun pct_decode :: "string \<Rightarrow> string" where
  "pct_decode [] = []"
| "pct_decode [c] = [c]"
| "pct_decode [c, a] = [c, a]"
| "pct_decode (c # a # b # rest) =
     (if c = CHR ''%'' \<and> unhexdigit a \<noteq> None \<and> unhexdigit b \<noteq> None
      then char_of (16 * the (unhexdigit a) + the (unhexdigit b)) # pct_decode rest
      else c # pct_decode (a # b # rest))"

definition decodeComponent :: "string \<Rightarrow> string" where
  "decodeComponent s = pct_decode (map (\<lambda>c. if c = CHR ''+'' then CHR '' '' else c) s)"

subsection \<open>Serialising and parsing\<close>

fun join :: "string \<Rightarrow> string list \<Rightarrow> string" where
  "join sep [] = []"
| "join sep [x] = x"
| "join sep (x # y # zs) = x @ sep @ join sep (y # zs)"

text \<open>
  Modelled from the spec: \<open>qs.stringify\<close> (see above). The keys are put in
  alphabetical order (a stable key order), each pair is written \<open>key=value\<close> with both
  sides percent-encoded, and the pairs are joined by \<open>&\<close>.
\<close>

definition stringify :: "(string \<times> string) list \<Rightarrow> string" where
  "stringify obj =
     join ''&'' (map (\<lambda>(k, v). encodeURIComponent k @ ''='' @ encodeURIComponent v)
                    (sort_key fst obj))"

fun split_at :: "char \<Rightarrow> string \<Rightarrow> string list" where
  "split_at d [] = [[]]"
| "split_at d (c # cs) =
     (if c = d then [] # split_at d cs
      else (case split_at d cs of [] \<Rightarrow> [[c]] | w # ws \<Rightarrow> (c # w) # ws))"

definition parse_param :: "string \<Rightarrow> string \<times> string option" where
  "parse_param p =
     (let k = takeWhile (\<lambda>c. c \<noteq> CHR ''='') p;
          r = dropWhile (\<lambda>c. c \<noteq> CHR ''='') p
      in (decodeComponent k, case r of [] \<Rightarrow> None | _ # v \<Rightarrow> Some (decodeComponent v)))"

text \<open>
  Modelled from the spec: \<open>parseQuery\<close> (commons/utils/QueryHelper) is not under src/.
  It is the inverse of the serialisation of 4.1 ("decoding the produced string"): one
  leading \<open>#\<close>, \<open>?\<close> or \<open>&\<close> is dropped, the rest is cut at every \<open>&\<close>, each piece is cut
  at its first \<open>=\<close>, and both sides are decoded. A key without \<open>=\<close> has no value
  (JavaScript's \<open>null\<close>), which \<open>handleHash\<close> treats like an absent key; \<open>None\<close> stands
  for both. The encoder never repeats a key; of a repeated key the first value is kept.
\<close>

definition parseQuery :: "string \<Rightarrow> (string \<rightharpoonup> string)" where
  "parseQuery query =
     (let q = (case query of [] \<Rightarrow> []
               | c # cs \<Rightarrow> if c = CHR ''#'' \<or> c = CHR ''?'' \<or> c = CHR ''&'' then cs else query);
          params = map parse_param (filter (\<lambda>p. p \<noteq> []) (split_at CHR ''&'' q))
      in (\<lambda>k. case map_of params k of Some (Some v) \<Rightarrow> Some v | _ \<Rightarrow> None))"

section \<open>JavaScript values\<close>

text \<open>
  What \<open>JSON.parse\<close> can return, and \<open>undefined\<close>. A number is an integer here: the
  handler only tests a number for truth and appends it to a string.
\<close>

datatype jsval =
  JUndefined
| JNull
| JBool bool
| JNum int
| JStr string
| JArr "jsval list"
| JObj "(string \<times> jsval) list"

fun truthy :: "jsval \<Rightarrow> bool" where
  "truthy JUndefined = False"
| "truthy JNull = False"
| "truthy (JBool b) = b"
| "truthy (JNum n) = (n \<noteq> 0)"
| "truthy (JStr s) = (s \<noteq> [])"
| "truthy (JArr xs) = True"
| "truthy (JObj kvs) = True"

text \<open>
  Reading a property of a value that is neither \<open>undefined\<close> nor \<open>null\<close>. The handler
  reads \<open>status\<close>, \<open>shorturl\<close>, \<open>message\<close>, \<open>url\<close> and \<open>keyword\<close> only: an object
  has them when the JSON text gave them (the last occurrence of a repeated key counts),
  and a string, number, boolean or array has none of them.
\<close>

fun field :: "jsval \<Rightarrow> string \<Rightarrow> jsval" where
  "field (JObj kvs) k = (case map_of (rev kvs) k of None \<Rightarrow> JUndefined | Some v \<Rightarrow> v)"
| "field v k = JUndefined"

datatype exn = TypeError | FetchFailed | JsonSyntaxError

text \<open>Reading a property of \<open>undefined\<close> or \<open>null\<close> raises a \<open>TypeError\<close>.\<close>

definition get_prop :: "jsval \<Rightarrow> string \<Rightarrow> exn + jsval" where
  "get_prop v k = (if v = JUndefined \<or> v = JNull then Inl TypeError else Inr (field v k))"

text \<open>The string that \<open>+\<close> appends to a string for a value on its right.\<close>

fun to_string :: "jsval \<Rightarrow> string" where
  "to_string JUndefined = ''undefined''"
| "to_string JNull = ''null''"
| "to_string (JBool b) = (if b then ''true'' else ''false'')"
| "to_string (JNum n) = number_to_string n"
| "to_string (JStr s) = s"
| "to_string (JArr xs) =
     join '','' (map (\<lambda>x. if x = JUndefined \<or> x = JNull then [] else to_string x) xs)"
| "to_string (JObj kvs) = ''[object Object]''"

section \<open>The application state\<close>

text \<open>
  The parts of \<open>OverallState\<close> that the saga reads and writes:
  \<open>state.workspaces.playground\<close> (the editor tabs, \<open>context.variant\<close>,
  \<open>externalLibrary\<close>, \<open>execTime\<close>) and \<open>state.playground\<close> (\<open>queryString\<close> and
  \<open>shortURL\<close>, both optional in \<open>StateProps\<close>). \<open>Variant\<close> (package c-slang) and
  \<open>ExternalLibraryName\<close> are string enums whose declarations are not under src/: a
  member is its string value.
\<close>

record editor_tab =
  editor_value :: string

record workspace_state =
  editorTabs :: "editor_tab list"
  context_variant :: string
  externalLibrary :: string
  execTime :: int

record playground_state =
  queryString :: "string option"
  shortURL :: "string option"

record overall_state =
  workspaces_playground :: workspace_state
  playground :: playground_state

definition defaultEditorValue :: string where
  "defaultEditorValue = ''1+1''"

datatype action = ChangeQueryString string | UpdateShortURL string

text \<open>
  What a saga does that the rest of the application sees: the actions it puts and the
  notifications it shows, in order, and the exception that escapes it, if any.
\<close>

datatype effect = Put action | ShowWarningMessage jsval | ShowSuccessMessage jsval

type_synonym outcome = "effect list \<times> exn option"

text \<open>
  Modelled from the spec: the reducer of \<open>changeQueryString\<close> and \<open>updateShortURL\<close> is
  not under src/. By the spec (3, 4.3) both values are single-slot registers: a published
  value replaces the previous one, whatever it was.
\<close>

fun reducer :: "overall_state \<Rightarrow> action \<Rightarrow> overall_state" where
  "reducer st (ChangeQueryString q) = st\<lparr>playground := (playground st)\<lparr>queryString := Some q\<rparr>\<rparr>"
| "reducer st (UpdateShortURL u) = st\<lparr>playground := (playground st)\<lparr>shortURL := Some u\<rparr>\<rparr>"

fun perform :: "overall_state \<Rightarrow> effect \<Rightarrow> overall_state" where
  "perform st (Put a) = reducer st a"
| "perform st (ShowWarningMessage m) = st"
| "perform st (ShowSuccessMessage m) = st"

definition state_after :: "overall_state \<Rightarrow> outcome \<Rightarrow> overall_state" where
  "state_after st out = foldl perform st (fst out)"

definition warnings :: "outcome \<Rightarrow> jsval list" where
  "warnings out = concat (map (\<lambda>e. case e of ShowWarningMessage m \<Rightarrow> [m] | _ \<Rightarrow> []) (fst out))"

definition short_url_updates :: "outcome \<Rightarrow> string list" where
  "short_url_updates out =
     concat (map (\<lambda>e. case e of Put (UpdateShortURL u) \<Rightarrow> [u] | _ \<Rightarrow> []) (fst out))"

section \<open>updateQueryString\<close>

text \<open>
  The generator \<open>updateQueryString\<close> reads the state with \<open>select\<close> and publishes one
  action with \<open>put\<close>; \<open>editorTabs[0].value\<close> raises a \<open>TypeError\<close> when there is no
  editor tab. \<open>compress\<close> stands for lz-string's \<open>compressToEncodedURIComponent\<close>,
  which is not code of this repository.
\<close>

definition updateQueryString :: "(string \<Rightarrow> string) \<Rightarrow> overall_state \<Rightarrow> outcome" where
  "updateQueryString compress st =
     (case editorTabs (workspaces_playground st) of
        [] \<Rightarrow> ([], Some TypeError)
      | tab # _ \<Rightarrow>
          (let code = editor_value tab
           in if code = [] \<or> code = defaultEditorValue then ([Put (ChangeQueryString [])], None)
              else
                (let variant = context_variant (workspaces_playground st);
                     external = externalLibrary (workspaces_playground st);
                     execTime = execTime (workspaces_playground st);
                     newQueryString = stringify
                       [(''prgrm'', compress code),
                        (''variant'', variant),
                        (''ext'', external),
                        (''exec'', number_to_string execTime)]
                 in ([Put (ChangeQueryString newQueryString)], None))))"

text \<open>
  One triggering of the watcher (\<open>takeEvery(GENERATE_LZ_STRING, updateQueryString)\<close>):
  the state after the generator has run.
\<close>

definition watcher :: "(string \<Rightarrow> string) \<Rightarrow> overall_state \<Rightarrow> overall_state" where
  "watcher compress st = state_after st (updateQueryString compress st)"

text \<open>
  The encoder as the spec words it (4.1), on the snapshot of 3: the empty string for an
  empty or default text, the serialised fields otherwise.
\<close>

record editor_snapshot =
  snapshot_text :: string
  snapshot_variant :: string
  snapshot_externalLibrary :: string
  execTimeBudgetMs :: int

definition spec_encode :: "(string \<Rightarrow> string) \<Rightarrow> editor_snapshot \<Rightarrow> string" where
  "spec_encode compress snapshot =
     (if snapshot_text snapshot = [] \<or> snapshot_text snapshot = ''1+1'' then []
      else stringify
             [(''prgrm'', compress (snapshot_text snapshot)),
              (''variant'', snapshot_variant snapshot),
              (''ext'', snapshot_externalLibrary snapshot),
              (''exec'', number_to_string (execTimeBudgetMs snapshot))])"

text \<open>A workspace whose first editor tab holds the snapshot's text.\<close>

definition workspace_of :: "editor_snapshot \<Rightarrow> editor_tab list \<Rightarrow> workspace_state" where
  "workspace_of snapshot tabs =
     \<lparr>editorTabs = \<lparr>editor_value = snapshot_text snapshot\<rparr> # tabs,
      context_variant = snapshot_variant snapshot,
      externalLibrary = snapshot_externalLibrary snapshot,
      execTime = execTimeBudgetMs snapshot\<rparr>"

section \<open>The shorten handler\<close>

text \<open>
  \<open>Constants\<close> and \<open>window.location\<close> are not under src/: their values are
  parameters. The signature may be missing from the configuration (the source asserts
  \<open>v!\<close>); \<open>FormData.append\<close> then sends the text \<open>undefined\<close>.
\<close>

record constants =
  urlShortenerBase :: string
  urlShortenerSignature :: "string option"
  location_protocol :: string
  location_host :: string

record request =
  request_url :: string
  request_method :: string
  request_body :: "(string \<times> string) list"

text \<open>
  What \<open>fetch\<close> gives: the promise is rejected (no connection), or there is a response
  with its \<open>ok\<close> flag and a body that \<open>resp.json()\<close> parses (\<open>Some\<close>) or rejects
  (\<open>None\<close>). The network also decides when the whole request settles, in milliseconds
  after it was issued; \<open>None\<close> is never.
\<close>

datatype fetch_result = Rejected | Response bool "jsval option"

record network =
  fetch :: "request \<Rightarrow> fetch_result"
  settles_at :: "request \<Rightarrow> nat option"

definition string_or_undefined :: "string option \<Rightarrow> string" where
  "string_or_undefined s = (case s of None \<Rightarrow> ''undefined'' | Some t \<Rightarrow> t)"

definition shorten_request :: "constants \<Rightarrow> string option \<Rightarrow> string \<Rightarrow> request" where
  "shorten_request c query_string keyword =
     (let url = location_protocol c @ ''//'' @ location_host c @ ''/playground#''
                @ string_or_undefined query_string;
          params = [(''signature'', string_or_undefined (urlShortenerSignature c)),
                    (''action'', ''shorturl''),
                    (''format'', ''json''),
                    (''keyword'', keyword),
                    (''url'', url)]
      in \<lparr>request_url = urlShortenerBase c @ ''yourls-api.php'',
          request_method = ''POST'',
          request_body = params\<rparr>)"

definition shortenURLRequest ::
  "constants \<Rightarrow> network \<Rightarrow> string option \<Rightarrow> string \<Rightarrow> exn + jsval" where
  "shortenURLRequest c net query_string keyword =
     (case fetch net (shorten_request c query_string keyword) of
        Rejected \<Rightarrow> Inl FetchFailed
      | Response ok body \<Rightarrow>
          if \<not> ok then Inr JNull
          else (case body of None \<Rightarrow> Inl JsonSyntaxError | Some res \<Rightarrow> Inr res))"

text \<open>
  \<open>race({result: call(...), hasTimedOut: delay(ms)})\<close> of redux-saga: the first effect
  to settle gives the only key of the result, and the loser is cancelled; \<open>delay\<close>
  settles with \<open>true\<close>; a call that is rejected first makes the race raise. A call that
  settles at the instant the timer fires is first: its effect was started first.
\<close>

definition race_call_delay ::
  "nat option \<Rightarrow> exn + jsval \<Rightarrow> nat \<Rightarrow> exn + jsval \<times> jsval" where
  "race_call_delay settles called ms =
     (case settles of
        None \<Rightarrow> Inr (JUndefined, JBool True)
      | Some t \<Rightarrow>
          if t \<le> ms then (case called of Inl e \<Rightarrow> Inl e | Inr v \<Rightarrow> Inr (v, JUndefined))
          else Inr (JUndefined, JBool True))"

text \<open>
  The handler of \<open>SHORTEN_URL\<close>, in two parts. \<open>after_race\<close> is the code below the
  \<open>try\<close> block, run on the values that the block left in \<open>resp\<close> and \<open>timeout\<close>.
  After its first test \<open>resp\<close> is truthy, so reading \<open>resp.status\<close>,
  \<open>resp.shorturl\<close>, \<open>resp.message\<close> and \<open>resp.url\<close> cannot raise; reading
  \<open>keyword\<close> of \<open>resp.url\<close> can, and no \<open>try\<close> is around it.
\<close>

definition after_race :: "constants \<Rightarrow> jsval \<Rightarrow> jsval \<Rightarrow> outcome" where
  "after_race c resp timeout =
     (let errorMsg = ''ERROR''
      in if \<not> truthy resp \<or> truthy timeout then
           ([Put (UpdateShortURL errorMsg),
             ShowWarningMessage (JStr ''Something went wrong trying to create the link.'')], None)
         else if field resp ''status'' \<noteq> JStr ''success'' \<and> \<not> truthy (field resp ''shorturl'') then
           ([Put (UpdateShortURL errorMsg), ShowWarningMessage (field resp ''message'')], None)
         else
           (let shown = (if field resp ''status'' \<noteq> JStr ''success''
                         then [ShowSuccessMessage (field resp ''message'')] else [])
            in case get_prop (field resp ''url'') ''keyword'' of
                 Inl e \<Rightarrow> (shown, Some e)
               | Inr k \<Rightarrow> (shown @ [Put (UpdateShortURL (urlShortenerBase c @ to_string k))], None)))"

text \<open>
  The \<open>try\<close> block: \<open>resp\<close> and \<open>timeout\<close> stay \<open>undefined\<close> when the race raises,
  and \<open>catch\<close> drops the exception.
\<close>

definition shortenURLHandler ::
  "constants \<Rightarrow> network \<Rightarrow> overall_state \<Rightarrow> string \<Rightarrow> outcome" where
  "shortenURLHandler c net st keyword =
     (let queryString = queryString (playground st);
          (resp, timeout) =
            (case race_call_delay (settles_at net (shorten_request c queryString keyword))
                                  (shortenURLRequest c net queryString keyword) 10000 of
               Inl _ \<Rightarrow> (JUndefined, JUndefined)
             | Inr (result, hasTimedOut) \<Rightarrow> (result, hasTimedOut))
      in after_race c resp timeout)"

text \<open>What the handler does when it gives up: the sentinel and the standard warning.\<close>

definition gave_up :: outcome where
  "gave_up =
     ([Put (UpdateShortURL ''ERROR''),
       ShowWarningMessage (JStr ''Something went wrong trying to create the link.'')], None)"

section \<open>handleHash\<close>

text \<open>
  \<open>handleHash\<close> reports through three callbacks of its \<open>props\<close>; its model returns the
  calls it makes, in order. Its collaborators that are not under src/ are parameters:
  \<open>decompress\<close> is lz-string's \<open>decompressFromEncodedURIComponent\<close> (\<open>None\<close> is its
  \<open>null\<close>), \<open>stringParamToInt\<close> is the helper of commons/utils/ParamParseHelper
  (applied to a possibly absent parameter, returning an integral number, or \<open>null\<close>
  when it finds none: \<open>None\<close>, which \<open>||\<close> treats as it would treat \<open>NaN\<close>),
  \<open>chapter_CALC\<close> and \<open>variant_DEFAULT\<close> are the members \<open>Chapter.CALC\<close> and
  \<open>Variant.DEFAULT\<close> of the enums of c-slang.
\<close>

record hash_env =
  decompress :: "string \<Rightarrow> string option"
  stringParamToInt :: "string option \<Rightarrow> int option"
  chapter_CALC :: int
  variant_DEFAULT :: string

datatype prop_call =
  HandleEditorValueChange string
| HandleChapterSelect int string
| HandleChangeExecTime int

text \<open>\<open>sublanguages\<close>, and so \<open>sourceLanguages\<close>, has the one entry (CALC, DEFAULT).\<close>

definition sourceLanguages :: "hash_env \<Rightarrow> (int \<times> string) list" where
  "sourceLanguages env = [(chapter_CALC env, variant_DEFAULT env)]"

text \<open>\<open>x || d\<close> on a number or \<open>null\<close>: the default replaces \<open>null\<close> and \<open>0\<close>.\<close>

definition or_number :: "int option \<Rightarrow> int \<Rightarrow> int" where
  "or_number x d = (case x of None \<Rightarrow> d | Some n \<Rightarrow> if n = 0 then d else n)"

text \<open>\<open>qs.exec || '1000'\<close>: the default replaces an absent and an empty parameter.\<close>

definition exec_param :: "(string \<rightharpoonup> string) \<Rightarrow> string" where
  "exec_param qs =
     (case qs ''exec'' of None \<Rightarrow> ''1000'' | Some s \<Rightarrow> if s = [] then ''1000'' else s)"

definition handleHash :: "hash_env \<Rightarrow> string \<Rightarrow> prop_call list" where
  "handleHash env hash =
     (let qs = parseQuery hash;
          chapter = (case stringParamToInt env (qs ''chap'') of
                       None \<Rightarrow> None | Some n \<Rightarrow> if n = 0 then None else Some n);
          programLz = (case qs ''lz'' of Some l \<Rightarrow> Some l | None \<Rightarrow> qs ''prgrm'');
          program = (case programLz of
                       None \<Rightarrow> None
                     | Some l \<Rightarrow> if l = [] then Some [] else decompress env l);
          calls1 = (case program of
                      None \<Rightarrow> []
                    | Some p \<Rightarrow> if p = [] then [] else [HandleEditorValueChange p]);
          variant = (case find (\<lambda>(c, v). Some c = chapter \<and> Some v = qs ''variant'')
                               (sourceLanguages env) of
                       Some (c, v) \<Rightarrow> v | None \<Rightarrow> variant_DEFAULT env);
          calls2 = (case chapter of None \<Rightarrow> [] | Some c \<Rightarrow> [HandleChapterSelect c variant]);
          execTime = max (or_number (stringParamToInt env (Some (exec_param qs))) 1000) 1000;
          calls3 = (if execTime \<noteq> 0 then [HandleChangeExecTime execTime] else [])
      in calls1 @ calls2 @ calls3)"

definition exec_times :: "prop_call list \<Rightarrow> int list" where
  "exec_times calls = concat (map (\<lambda>c. case c of HandleChangeExecTime t \<Rightarrow> [t] | _ \<Rightarrow> []) calls)"

definition editor_changes :: "prop_call list \<Rightarrow> string list" where
  "editor_changes calls =
     concat (map (\<lambda>c. case c of HandleEditorValueChange p \<Rightarrow> [p] | _ \<Rightarrow> []) calls)"

section \<open>Example inputs\<close>

text \<open>Concrete inputs, on which the theorems below are instantiated.\<close>

definition example_constants :: constants where
  "example_constants =
     \<lparr>urlShortenerBase = ''https://sho.rt/'', urlShortenerSignature = Some ''s3cret'',
      location_protocol = ''https:'', location_host = ''playground.example''\<rparr>"

definition example_state :: "string \<Rightarrow> overall_state" where
  "example_state code =
     \<lparr>workspaces_playground =
        \<lparr>editorTabs = [\<lparr>editor_value = code\<rparr>], context_variant = ''default'',
         externalLibrary = ''NONE'', execTime = 1000\<rparr>,
      playground = \<lparr>queryString = Some ''stale'', shortURL = Some ''old''\<rparr>\<rparr>"

definition example_network :: "fetch_result \<Rightarrow> nat option \<Rightarrow> network" where
  "example_network result settles = \<lparr>fetch = (\<lambda>req. result), settles_at = (\<lambda>req. settles)\<rparr>"

definition example_env :: hash_env where
  "example_env =
     \<lparr>decompress = (\<lambda>s. Some (rev s)),
      stringParamToInt =
        (\<lambda>p. if p = Some ''1000'' then Some 1000 else if p = Some ''250'' then Some 250 else None),
      chapter_CALC = 1,
      variant_DEFAULT = ''default''\<rparr>"

section \<open>Percent-encoding is reversible\<close>

lemma unhexdigit_hexdigit: "n < 16 \<Longrightarrow> unhexdigit (hexdigit n) = Some n"
  by (auto simp: unhexdigit_def hexdigit_def Let_def)

lemma hexdigit_unreserved: "n < 16 \<Longrightarrow> unreserved (hexdigit n)"
  by (auto simp: unreserved_def hexdigit_def Let_def)

lemma high_nibble: "(of_char (c::char) :: nat) div 16 < 16"
proof -
  have "(of_char c :: nat) < 256" by simp
  then show ?thesis by (simp add: less_mult_imp_div_less)
qed

lemma encoded_chars: "c \<in> set (encodeURIComponent s) \<Longrightarrow> unreserved c \<or> c = CHR ''%''"
  by (induction s)
     (auto simp: encodeURIComponent_def pct_char_def hexdigit_unreserved high_nibble
           split: if_splits)

lemma encoded_no_separator:
  "CHR ''&'' \<notin> set (encodeURIComponent s)"
  "CHR ''='' \<notin> set (encodeURIComponent s)"
  "CHR ''+'' \<notin> set (encodeURIComponent s)"
  using encoded_chars [of "CHR ''&''" s] encoded_chars [of "CHR ''=''" s]
    encoded_chars [of "CHR ''+''" s]
  by (auto simp: unreserved_def)

lemma pct_decode_plain: "c \<noteq> CHR ''%'' \<Longrightarrow> pct_decode (c # s) = c # pct_decode s"
  by (cases "c # s" rule: pct_decode.cases) auto

lemma unreserved_not_percent: "unreserved c \<Longrightarrow> c \<noteq> CHR ''%''"
  by (auto simp: unreserved_def)

lemma pct_decode_pct_char: "pct_decode (pct_char c @ s) = c # pct_decode s"
proof (cases "unreserved c")
  case True
  then show ?thesis by (simp add: pct_char_def pct_decode_plain unreserved_not_percent)
next
  case False
  then show ?thesis by (simp add: pct_char_def unhexdigit_hexdigit high_nibble)
qed

lemma pct_decode_encode: "pct_decode (encodeURIComponent s) = s"
  by (induction s) (simp_all add: encodeURIComponent_def pct_decode_pct_char)

lemma plus_to_space_id:
  "CHR ''+'' \<notin> set s \<Longrightarrow> map (\<lambda>c. if c = CHR ''+'' then CHR '' '' else c) s = s"
  by (induction s) auto

lemma decode_encode: "decodeComponent (encodeURIComponent s) = s"
  by (simp add: decodeComponent_def plus_to_space_id encoded_no_separator pct_decode_encode)

section \<open>Parsing what the encoder serialised\<close>

lemma split_at_none: "d \<notin> set a \<Longrightarrow> split_at d a = [a]"
  by (induction a) auto

lemma split_at_append: "d \<notin> set a \<Longrightarrow> split_at d (a @ d # rest) = a # split_at d rest"
  by (induction a) auto

lemma split_at_four:
  assumes "d \<notin> set a" "d \<notin> set b" "d \<notin> set c" "d \<notin> set e"
  shows "split_at d (a @ d # b @ d # c @ d # e) = [a, b, c, e]"
  using assms by (simp add: split_at_append split_at_none)

lemma parse_param_pair:
  assumes "CHR ''='' \<notin> set k"
  shows "parse_param (k @ CHR ''='' # v) = (decodeComponent k, Some (decodeComponent v))"
proof -
  have "takeWhile (\<lambda>c. c \<noteq> CHR ''='') (k @ CHR ''='' # v) = k"
    using assms by (induction k) auto
  moreover have "dropWhile (\<lambda>c. c \<noteq> CHR ''='') (k @ CHR ''='' # v) = CHR ''='' # v"
    using assms by (induction k) auto
  ultimately show ?thesis by (simp add: parse_param_def)
qed

lemma key_order:
  "''prgrm'' \<le> ''variant''" "\<not> ''prgrm'' \<le> ''ext''" "\<not> ''prgrm'' \<le> ''exec''"
  "''exec'' \<le> ''ext''" "\<not> ''variant'' \<le> ''ext''" "\<not> ''variant'' \<le> ''exec''"
  "\<not> ''ext'' \<le> ''exec''"
  by code_simp+

lemma sort_four_keys:
  "sort_key fst [(''prgrm'', c), (''variant'', v), (''ext'', e), (''exec'', x)]
   = [(''exec'', x), (''ext'', e), (''prgrm'', c), (''variant'', v)]"
  by (simp only: sort_key_def foldr.simps o_apply id_apply insort_key.simps fst_conv
        key_order if_True if_False)

lemma encode_keys:
  "encodeURIComponent ''exec'' = ''exec''" "encodeURIComponent ''ext'' = ''ext''"
  "encodeURIComponent ''prgrm'' = ''prgrm''" "encodeURIComponent ''variant'' = ''variant''"
  by code_simp+

lemma decode_keys:
  "decodeComponent ''exec'' = ''exec''" "decodeComponent ''ext'' = ''ext''"
  "decodeComponent ''prgrm'' = ''prgrm''" "decodeComponent ''variant'' = ''variant''"
  by code_simp+

lemma stringify_share:
  "stringify [(''prgrm'', c), (''variant'', v), (''ext'', e), (''exec'', x)] =
     (''exec'' @ CHR ''='' # encodeURIComponent x) @ CHR ''&'' #
     (''ext'' @ CHR ''='' # encodeURIComponent e) @ CHR ''&'' #
     (''prgrm'' @ CHR ''='' # encodeURIComponent c) @ CHR ''&'' #
     (''variant'' @ CHR ''='' # encodeURIComponent v)"
  unfolding stringify_def sort_four_keys by (simp add: encode_keys)

lemma params_share:
  "map parse_param (filter (\<lambda>p. p \<noteq> [])
     (split_at CHR ''&'' (stringify [(''prgrm'', c), (''variant'', v), (''ext'', e), (''exec'', x)])))
   = [(''exec'', Some x), (''ext'', Some e), (''prgrm'', Some c), (''variant'', Some v)]"
proof -
  have key: "CHR ''='' \<notin> set ''exec''" "CHR ''='' \<notin> set ''ext''"
    "CHR ''='' \<notin> set ''prgrm''" "CHR ''='' \<notin> set ''variant''"
    by simp_all
  have amp: "CHR ''&'' \<notin> set (''exec'' @ CHR ''='' # encodeURIComponent x)"
    "CHR ''&'' \<notin> set (''ext'' @ CHR ''='' # encodeURIComponent e)"
    "CHR ''&'' \<notin> set (''prgrm'' @ CHR ''='' # encodeURIComponent c)"
    "CHR ''&'' \<notin> set (''variant'' @ CHR ''='' # encodeURIComponent v)"
    by (simp_all add: encoded_no_separator)
  have "split_at CHR ''&'' (stringify [(''prgrm'', c), (''variant'', v), (''ext'', e), (''exec'', x)])
     = [''exec'' @ CHR ''='' # encodeURIComponent x, ''ext'' @ CHR ''='' # encodeURIComponent e,
        ''prgrm'' @ CHR ''='' # encodeURIComponent c, ''variant'' @ CHR ''='' # encodeURIComponent v]"
    unfolding stringify_share by (rule split_at_four [OF amp])
  then show ?thesis
    by (simp only: parse_param_pair [OF key(1)] parse_param_pair [OF key(2)]
          parse_param_pair [OF key(3)] parse_param_pair [OF key(4)]
          decode_keys decode_encode filter.simps list.map append_is_Nil_conv
          list.distinct simp_thms if_True if_False)
qed

lemma parseQuery_share:
  "parseQuery (CHR ''#'' # stringify [(''prgrm'', c), (''variant'', v), (''ext'', e), (''exec'', x)])
   = [''exec'' \<mapsto> x, ''ext'' \<mapsto> e, ''prgrm'' \<mapsto> c, ''variant'' \<mapsto> v]"
  unfolding parseQuery_def by (rule ext) (simp add: params_share)

lemma example_query_string:
  "updateQueryString rev (example_state ''1 + 2;'') =
     ([Put (ChangeQueryString ''exec=1000&ext=NONE&prgrm=%3B2%20%2B%201&variant=default'')], None)"
  by code_simp

lemma example_decode:
  "handleHash example_env ''#exec=1000&ext=NONE&prgrm=%3B2%20%2B%201&variant=default'' =
     [HandleEditorValueChange ''1 + 2;'', HandleChangeExecTime 1000]"
  by code_simp

section \<open>The encoder\<close>

text \<open>
  C7. For every state whose first editor tab holds the empty text or the default
  placeholder text \<open>1+1\<close>, \<open>updateQueryString\<close> puts exactly one action,
  \<open>changeQueryString('')\<close>, and after the watcher has run the query-string value is the
  empty string, whatever it was before.
\<close>

theorem updateQueryString_empty_or_default:
  assumes "editorTabs (workspaces_playground st) = tab # tabs"
    and "editor_value tab = [] \<or> editor_value tab = defaultEditorValue"
  shows "updateQueryString compress st = ([Put (ChangeQueryString [])], None)
       \<and> queryString (playground (watcher compress st)) = Some []"
  using assms by (auto simp: updateQueryString_def watcher_def state_after_def)

theorem updateQueryString_empty_or_default_witness:
  "editor_value \<lparr>editor_value = ''1+1''\<rparr> = defaultEditorValue
   \<and> updateQueryString rev (example_state ''1+1'') = ([Put (ChangeQueryString [])], None)
   \<and> queryString (playground (example_state ''1+1'')) = Some ''stale''
   \<and> queryString (playground (watcher rev (example_state ''1+1''))) = Some []"
  using updateQueryString_empty_or_default
    [of "example_state ''1+1''" "\<lparr>editor_value = ''1+1''\<rparr>" "[]" rev]
  by (simp add: example_state_def defaultEditorValue_def)

text \<open>
  C1. Let the first editor tab hold a text \<open>code\<close> that is neither empty nor the default
  placeholder, and let the compressor be lossless on it: \<open>decompress\<close> gives \<open>code\<close>
  back from \<open>compress code\<close>, which is not the empty string (lz-string is not code of
  this repository; this is its contract). Then \<open>updateQueryString\<close> publishes a query
  string \<open>q\<close> such that, on the hash \<open>#q\<close> of the shared link, \<open>parseQuery\<close> finds the
  compressed text under \<open>prgrm\<close>, and \<open>handleHash\<close> hands exactly the original text to
  \<open>handleEditorValueChange\<close>.
\<close>

theorem share_link_round_trip:
  assumes "editorTabs (workspaces_playground st) = tab # tabs"
    and "editor_value tab = code"
    and "code \<noteq> []" and "code \<noteq> defaultEditorValue"
    and "compress code \<noteq> []"
    and "decompress env (compress code) = Some code"
  shows "\<exists>q. updateQueryString compress st = ([Put (ChangeQueryString q)], None)
           \<and> queryString (playground (watcher compress st)) = Some q
           \<and> parseQuery (CHR ''#'' # q) ''prgrm'' = Some (compress code)
           \<and> editor_changes (handleHash env (CHR ''#'' # q)) = [code]"
proof -
  let ?q = "stringify [(''prgrm'', compress code),
                       (''variant'', context_variant (workspaces_playground st)),
                       (''ext'', externalLibrary (workspaces_playground st)),
                       (''exec'', number_to_string (execTime (workspaces_playground st)))]"
  have put: "updateQueryString compress st = ([Put (ChangeQueryString ?q)], None)"
    using assms(1-4) by (simp add: updateQueryString_def)
  have stored: "queryString (playground (watcher compress st)) = Some ?q"
    by (simp add: watcher_def state_after_def put)
  have prgrm: "parseQuery (CHR ''#'' # ?q) ''prgrm'' = Some (compress code)"
    and lz: "parseQuery (CHR ''#'' # ?q) ''lz'' = None"
    by (simp_all add: parseQuery_share)
  have "editor_changes (handleHash env (CHR ''#'' # ?q)) = [code]"
    using assms(3,5,6)
    by (simp add: handleHash_def Let_def prgrm lz editor_changes_def split: option.splits)
  with put stored prgrm show ?thesis by blast
qed

theorem share_link_round_trip_witness:
  "rev ''1 + 2;'' \<noteq> [] \<and> decompress example_env (rev ''1 + 2;'') = Some ''1 + 2;''
   \<and> updateQueryString rev (example_state ''1 + 2;'') =
       ([Put (ChangeQueryString ''exec=1000&ext=NONE&prgrm=%3B2%20%2B%201&variant=default'')], None)
   \<and> editor_changes
        (handleHash example_env ''#exec=1000&ext=NONE&prgrm=%3B2%20%2B%201&variant=default'')
       = [''1 + 2;'']"
proof -
  from share_link_round_trip
    [of "example_state ''1 + 2;''" "\<lparr>editor_value = ''1 + 2;''\<rparr>" "[]" "''1 + 2;''" rev example_env]
  obtain q where
    "updateQueryString rev (example_state ''1 + 2;'') = ([Put (ChangeQueryString q)], None)"
    and "editor_changes (handleHash example_env (CHR ''#'' # q)) = [''1 + 2;'']"
    by (auto simp: example_state_def example_env_def defaultEditorValue_def)
  then show ?thesis
    by (simp add: example_query_string) (simp add: example_env_def)
qed

section \<open>The watcher\<close>

lemma updateQueryString_refines:
  "updateQueryString compress (st\<lparr>workspaces_playground := workspace_of snapshot tabs\<rparr>)
   = ([Put (ChangeQueryString (spec_encode compress snapshot))], None)"
  by (simp add: updateQueryString_def workspace_of_def spec_encode_def defaultEditorValue_def)

lemma watcher_refines:
  "queryString (playground (watcher compress (st\<lparr>workspaces_playground := workspace_of snapshot tabs\<rparr>)))
   = Some (spec_encode compress snapshot)"
  by (simp add: watcher_def state_after_def updateQueryString_refines)

text \<open>
  When do two encodings differ? Two texts that are neither empty nor the default
  placeholder and that the compressor keeps apart have different encodings, and so have
  such a text and an empty or default one. The empty text and the default placeholder
  have the same encoding, the empty string.
\<close>

lemma shareable_encodings_differ:
  assumes "snapshot_text a \<noteq> []" "snapshot_text a \<noteq> ''1+1''"
    and "snapshot_text b \<noteq> []" "snapshot_text b \<noteq> ''1+1''"
    and "compress (snapshot_text a) \<noteq> compress (snapshot_text b)"
  shows "spec_encode compress a \<noteq> spec_encode compress b"
proof
  assume "spec_encode compress a = spec_encode compress b"
  then have "parseQuery (CHR ''#'' # spec_encode compress a) ''prgrm''
           = parseQuery (CHR ''#'' # spec_encode compress b) ''prgrm''"
    by simp
  then show False
    using assms by (simp add: spec_encode_def parseQuery_share)
qed

lemma stringify_share_not_empty:
  "stringify [(''prgrm'', c), (''variant'', v), (''ext'', e), (''exec'', x)] \<noteq> []"
  by (simp add: stringify_share)

lemma encodings_differ:
  assumes "snapshot_text a \<notin> {[], ''1+1''} \<or> snapshot_text b \<notin> {[], ''1+1''}"
    and "compress (snapshot_text a) \<noteq> compress (snapshot_text b)"
  shows "spec_encode compress a \<noteq> spec_encode compress b"
proof (cases "snapshot_text a \<in> {[], ''1+1''}")
  case True
  then have "spec_encode compress a = []"
    by (auto simp: spec_encode_def)
  moreover have "spec_encode compress b \<noteq> []"
    using True assms(1) by (auto simp: spec_encode_def stringify_share_not_empty)
  ultimately show ?thesis by simp
next
  case a: False
  show ?thesis
  proof (cases "snapshot_text b \<in> {[], ''1+1''}")
    case True
    then have "spec_encode compress b = []"
      by (auto simp: spec_encode_def)
    moreover have "spec_encode compress a \<noteq> []"
      using a by (auto simp: spec_encode_def stringify_share_not_empty)
    ultimately show ?thesis by simp
  next
    case False
    with a assms(2) show ?thesis
      by (intro shareable_encodings_differ) auto
  qed
qed

text \<open>
  C9, as the spec states it: after two triggerings with different text the query-string
  value is the encoding of the second snapshot, never that of the first. With the empty
  text at the first triggering and the default placeholder \<open>1+1\<close> at the second, the
  texts differ and the value, the empty string, is the encoding of the first snapshot
  too.
\<close>

theorem watcher_first_encoding_counterexample:
  "snapshot_text \<lparr>snapshot_text = [], snapshot_variant = ''default'',
       snapshot_externalLibrary = ''NONE'', execTimeBudgetMs = 1000\<rparr>
     \<noteq> snapshot_text \<lparr>snapshot_text = ''1+1'', snapshot_variant = ''default'',
       snapshot_externalLibrary = ''NONE'', execTimeBudgetMs = 1000\<rparr>
   \<and> queryString (playground (watcher rev
        ((watcher rev ((example_state ''f(1);'')\<lparr>workspaces_playground :=
            workspace_of \<lparr>snapshot_text = [], snapshot_variant = ''default'',
              snapshot_externalLibrary = ''NONE'', execTimeBudgetMs = 1000\<rparr> []\<rparr>))
           \<lparr>workspaces_playground :=
            workspace_of \<lparr>snapshot_text = ''1+1'', snapshot_variant = ''default'',
              snapshot_externalLibrary = ''NONE'', execTimeBudgetMs = 1000\<rparr> []\<rparr>)))
     = Some (spec_encode rev \<lparr>snapshot_text = [], snapshot_variant = ''default'',
              snapshot_externalLibrary = ''NONE'', execTimeBudgetMs = 1000\<rparr>)
   \<and> spec_encode rev \<lparr>snapshot_text = [], snapshot_variant = ''default'',
              snapshot_externalLibrary = ''NONE'', execTimeBudgetMs = 1000\<rparr> = []"
  by (simp add: watcher_def state_after_def updateQueryString_def workspace_of_def
        spec_encode_def defaultEditorValue_def)

text \<open>
  C9, amended. A triggering of the watcher puts the encoding (4.1 of the spec) of the
  snapshot that the state holds at that moment, and the value it publishes replaces the
  previous one. After a triggering on a first snapshot, an edit, and a triggering on a
  second snapshot, the query-string value is the encoding of the second snapshot,
  whatever the first snapshot and the state before were. It is not the encoding of the
  first snapshot when at least one of the two texts is neither empty nor the default
  placeholder and the compressor keeps the two texts apart (a lossless one does).
\<close>

theorem watcher_publishes_latest_snapshot:
  "updateQueryString compress (st\<lparr>workspaces_playground := workspace_of second tabs_b\<rparr>)
     = ([Put (ChangeQueryString (spec_encode compress second))], None)
   \<and> queryString (playground (watcher compress
        ((watcher compress (st\<lparr>workspaces_playground := workspace_of first tabs_a\<rparr>))
           \<lparr>workspaces_playground := workspace_of second tabs_b\<rparr>)))
     = Some (spec_encode compress second)
   \<and> ((snapshot_text first \<notin> {[], ''1+1''} \<or> snapshot_text second \<notin> {[], ''1+1''})
        \<and> compress (snapshot_text first) \<noteq> compress (snapshot_text second) \<longrightarrow>
        queryString (playground (watcher compress
          ((watcher compress (st\<lparr>workspaces_playground := workspace_of first tabs_a\<rparr>))
             \<lparr>workspaces_playground := workspace_of second tabs_b\<rparr>)))
        \<noteq> Some (spec_encode compress first))"
  using encodings_differ [of first second compress]
  by (auto simp: updateQueryString_refines watcher_refines)

theorem watcher_publishes_latest_snapshot_witness:
  "rev ''f(1);'' \<noteq> rev ''g(2);''
   \<and> queryString (playground (watcher rev
        ((watcher rev ((example_state [])\<lparr>workspaces_playground :=
            workspace_of \<lparr>snapshot_text = ''f(1);'', snapshot_variant = ''default'',
              snapshot_externalLibrary = ''NONE'', execTimeBudgetMs = 1000\<rparr> []\<rparr>))
           \<lparr>workspaces_playground :=
            workspace_of \<lparr>snapshot_text = ''g(2);'', snapshot_variant = ''default'',
              snapshot_externalLibrary = ''NONE'', execTimeBudgetMs = 2000\<rparr> []\<rparr>)))
     = Some ''exec=2000&ext=NONE&prgrm=%3B%292%28g&variant=default''
   \<and> spec_encode rev \<lparr>snapshot_text = ''f(1);'', snapshot_variant = ''default'',
              snapshot_externalLibrary = ''NONE'', execTimeBudgetMs = 1000\<rparr>
     = ''exec=1000&ext=NONE&prgrm=%3B%291%28f&variant=default''"
proof -
  have second: "spec_encode rev \<lparr>snapshot_text = ''g(2);'', snapshot_variant = ''default'',
              snapshot_externalLibrary = ''NONE'', execTimeBudgetMs = 2000\<rparr>
     = ''exec=2000&ext=NONE&prgrm=%3B%292%28g&variant=default''"
    by code_simp
  have first: "spec_encode rev \<lparr>snapshot_text = ''f(1);'', snapshot_variant = ''default'',
              snapshot_externalLibrary = ''NONE'', execTimeBudgetMs = 1000\<rparr>
     = ''exec=1000&ext=NONE&prgrm=%3B%291%28f&variant=default''"
    by code_simp
  show ?thesis
    using watcher_publishes_latest_snapshot
      [where compress = rev and st = "example_state []" and tabs_a = "[]" and tabs_b = "[]"
         and second = "\<lparr>snapshot_text = ''g(2);'', snapshot_variant = ''default'',
              snapshot_externalLibrary = ''NONE'', execTimeBudgetMs = 2000\<rparr>"
         and first = "\<lparr>snapshot_text = ''f(1);'', snapshot_variant = ''default'',
              snapshot_externalLibrary = ''NONE'', execTimeBudgetMs = 1000\<rparr>"]
    by (simp add: first second)
qed

section \<open>The execution time read from a hash\<close>

text \<open>
  C10. For every hash, and whatever \<open>stringParamToInt\<close> returns, \<open>handleHash\<close> calls
  \<open>handleChangeExecTime\<close> exactly once, with a value \<open>t\<close> of at least 1000: \<open>t\<close> is
  1000 when \<open>stringParamToInt\<close> finds no number in the parameter, and the larger of the
  number and 1000 otherwise (so a number below 1000 becomes 1000). For a missing or empty
  \<open>exec\<close> parameter the text that is parsed is the default \<open>1000\<close>, and \<open>t\<close> is 1000
  when \<open>stringParamToInt\<close> reads that text as the number 1000.
\<close>

theorem handleHash_execTime:
  "\<exists>t. exec_times (handleHash env hash) = [t] \<and> 1000 \<le> t
     \<and> t = (case stringParamToInt env (Some (exec_param (parseQuery hash))) of
              None \<Rightarrow> 1000 | Some n \<Rightarrow> max n 1000)
     \<and> ((parseQuery hash ''exec'' = None \<or> parseQuery hash ''exec'' = Some [])
          \<and> stringParamToInt env (Some ''1000'') = Some 1000 \<longrightarrow> t = 1000)"
  by (auto simp: handleHash_def exec_times_def or_number_def exec_param_def Let_def
        split: option.splits)

theorem handleHash_execTime_witness:
  "parseQuery ''#prgrm=abc&variant=default'' ''exec'' = None
   \<and> exec_times (handleHash example_env ''#prgrm=abc&variant=default'') = [1000]
   \<and> exec_times (handleHash example_env ''#prgrm=abc&exec=250'') = [1000]
   \<and> exec_times (handleHash example_env ''#prgrm=abc&exec=oops'') = [1000]"
proof -
  have missing: "parseQuery ''#prgrm=abc&variant=default'' ''exec'' = None"
    by code_simp
  have low: "exec_param (parseQuery ''#prgrm=abc&exec=250'') = ''250''"
    and bad: "exec_param (parseQuery ''#prgrm=abc&exec=oops'') = ''oops''"
    by code_simp+
  show ?thesis
    using handleHash_execTime [of example_env "''#prgrm=abc&variant=default''"]
      handleHash_execTime [of example_env "''#prgrm=abc&exec=250''"]
      handleHash_execTime [of example_env "''#prgrm=abc&exec=oops''"]
    by (auto simp: missing low bad example_env_def)
qed

section \<open>The shorten handler: failures\<close>

lemma handler_on_response:
  assumes "req = shorten_request c (queryString (playground st)) keyword"
    and "settles_at net req = Some t" and "t < 10000"
    and "fetch net req = Response True (Some resp)"
  shows "shortenURLHandler c net st keyword = after_race c resp JUndefined"
  using assms
  by (simp add: shortenURLHandler_def race_call_delay_def shortenURLRequest_def)

text \<open>
  C2. Let \<open>req\<close> be the request that the handler sends. When \<open>fetch\<close> is rejected (no
  connection), or the response is not \<open>ok\<close>, or its body does not parse, or the request
  settles after the 10000 ms of the timer or never, the handler puts
  \<open>updateShortURL('ERROR')\<close> and then shows the warning
  "Something went wrong trying to create the link.", and does nothing else; the
  short-URL value is then \<open>ERROR\<close>.
\<close>

theorem shorten_failure_gives_up:
  assumes "req = shorten_request c (queryString (playground st)) keyword"
    and "fetch net req = Rejected
       \<or> (\<exists>body. fetch net req = Response False body)
       \<or> fetch net req = Response True None
       \<or> settles_at net req = None
       \<or> (\<exists>t. settles_at net req = Some t \<and> 10000 < t)"
  shows "shortenURLHandler c net st keyword =
           ([Put (UpdateShortURL ''ERROR''),
             ShowWarningMessage (JStr ''Something went wrong trying to create the link.'')], None)
       \<and> shortURL (playground (state_after st (shortenURLHandler c net st keyword))) = Some ''ERROR''
       \<and> warnings (shortenURLHandler c net st keyword) =
           [JStr ''Something went wrong trying to create the link.'']"
proof -
  have "shortenURLHandler c net st keyword =
           ([Put (UpdateShortURL ''ERROR''),
             ShowWarningMessage (JStr ''Something went wrong trying to create the link.'')], None)"
    using assms
    by (auto simp: shortenURLHandler_def race_call_delay_def shortenURLRequest_def after_race_def
          Let_def split: option.splits sum.splits)
  then show ?thesis by (simp add: state_after_def warnings_def)
qed

theorem shorten_failure_gives_up_witness:
  "shortenURLHandler example_constants (example_network Rejected (Some 40))
      (example_state ''1 + 2;'') ''abc'' = gave_up
   \<and> shortenURLHandler example_constants (example_network (Response False None) (Some 40))
      (example_state ''1 + 2;'') ''abc'' = gave_up
   \<and> shortenURLHandler example_constants (example_network (Response True None) (Some 40))
      (example_state ''1 + 2;'') ''abc'' = gave_up
   \<and> shortenURLHandler example_constants
        (example_network (Response True (Some (JObj [(''status'', JStr ''success''),
           (''url'', JObj [(''keyword'', JStr ''abc'')])]))) (Some 10001))
      (example_state ''1 + 2;'') ''abc'' = gave_up
   \<and> shortURL (playground (state_after (example_state ''1 + 2;'')
        (shortenURLHandler example_constants (example_network Rejected (Some 40))
           (example_state ''1 + 2;'') ''abc''))) = Some ''ERROR''"
  using shorten_failure_gives_up
      [OF refl, of "example_network Rejected (Some 40)" example_constants
         "example_state ''1 + 2;''" "''abc''"]
    shorten_failure_gives_up
      [OF refl, of "example_network (Response False None) (Some 40)" example_constants
         "example_state ''1 + 2;''" "''abc''"]
    shorten_failure_gives_up
      [OF refl, of "example_network (Response True None) (Some 40)" example_constants
         "example_state ''1 + 2;''" "''abc''"]
    shorten_failure_gives_up
      [OF refl, of "example_network (Response True (Some (JObj [(''status'', JStr ''success''),
           (''url'', JObj [(''keyword'', JStr ''abc'')])]))) (Some 10001)" example_constants
         "example_state ''1 + 2;''" "''abc''"]
  by (simp add: example_network_def gave_up_def state_after_def)

text \<open>
  C4. Let the request settle at time \<open>t\<close> (in ms after it was issued); the timer fires
  at 10000. When the timer is first (\<open>10000 < t\<close>), the handler gives up: it puts
  \<open>updateShortURL('ERROR')\<close> once and shows the standard warning, whatever the request
  returns later, and the short-URL value is \<open>ERROR\<close>. When the request is first
  (\<open>t < 10000\<close>), the handler goes on with what the request returned and with no
  time-out flag, and it writes the short-URL value at most once.
\<close>

theorem race_first_to_settle_decides:
  assumes "req = shorten_request c (queryString (playground st)) keyword"
    and "settles_at net req = Some t"
  shows "(10000 < t \<longrightarrow>
            shortenURLHandler c net st keyword = gave_up
          \<and> short_url_updates (shortenURLHandler c net st keyword) = [''ERROR'']
          \<and> shortURL (playground (state_after st (shortenURLHandler c net st keyword)))
              = Some ''ERROR'')
       \<and> (t < 10000 \<longrightarrow>
            shortenURLHandler c net st keyword =
              after_race c (case shortenURLRequest c net (queryString (playground st)) keyword of
                              Inl e \<Rightarrow> JUndefined | Inr res \<Rightarrow> res) JUndefined
          \<and> length (short_url_updates (shortenURLHandler c net st keyword)) \<le> 1)"
proof (intro conjI impI)
  assume late: "10000 < t"
  then show gave: "shortenURLHandler c net st keyword = gave_up"
    using assms
    by (simp add: shortenURLHandler_def race_call_delay_def after_race_def gave_up_def)
  then show "short_url_updates (shortenURLHandler c net st keyword) = [''ERROR'']"
    by (simp add: gave_up_def short_url_updates_def)
  from gave show "shortURL (playground (state_after st (shortenURLHandler c net st keyword)))
              = Some ''ERROR''"
    by (simp add: gave_up_def state_after_def)
next
  assume early: "t < 10000"
  then show "shortenURLHandler c net st keyword =
     after_race c (case shortenURLRequest c net (queryString (playground st)) keyword of
                     Inl e \<Rightarrow> JUndefined | Inr res \<Rightarrow> res) JUndefined"
    using assms
    by (simp add: shortenURLHandler_def race_call_delay_def split: sum.splits)
  show "length (short_url_updates (shortenURLHandler c net st keyword)) \<le> 1"
    by (simp add: shortenURLHandler_def after_race_def short_url_updates_def Let_def
          split: sum.splits prod.splits)
qed

theorem race_first_to_settle_decides_witness:
  "shortenURLHandler example_constants
     (example_network (Response True (Some (JObj
        [(''status'', JStr ''success''), (''url'', JObj [(''keyword'', JStr ''abc'')])])))
        (Some 10001))
     (example_state ''1 + 2;'') ''abc'' = gave_up
   \<and> shortenURLHandler example_constants
     (example_network (Response True (Some (JObj
        [(''status'', JStr ''success''), (''url'', JObj [(''keyword'', JStr ''abc'')])])))
        (Some 9999))
     (example_state ''1 + 2;'') ''abc'' = ([Put (UpdateShortURL ''https://sho.rt/abc'')], None)"
  using race_first_to_settle_decides
    [OF refl, of "example_network (Response True (Some (JObj
        [(''status'', JStr ''success''), (''url'', JObj [(''keyword'', JStr ''abc'')])])))
        (Some 10001)" example_constants "example_state ''1 + 2;''" "''abc''" 10001]
    race_first_to_settle_decides
    [OF refl, of "example_network (Response True (Some (JObj
        [(''status'', JStr ''success''), (''url'', JObj [(''keyword'', JStr ''abc'')])])))
        (Some 9999)" example_constants "example_state ''1 + 2;''" "''abc''" 9999]
  by (simp add: example_network_def example_constants_def shortenURLRequest_def
        after_race_def get_prop_def)

section \<open>The shorten handler: responses\<close>

text \<open>
  C6. Let the response arrive before the timer, with an \<open>ok\<close> status and a body that
  parses to a truthy value \<open>resp\<close> (every JSON object is one) whose \<open>status\<close> is not
  the string \<open>success\<close> and whose \<open>shorturl\<close> is absent (or falsy). Then the handler
  puts \<open>updateShortURL('ERROR')\<close> and shows one warning, \<open>resp.message\<close> as it is.
\<close>

theorem shorten_application_failure:
  assumes "req = shorten_request c (queryString (playground st)) keyword"
    and "settles_at net req = Some t" and "t < 10000"
    and "fetch net req = Response True (Some resp)"
    and "truthy resp"
    and "field resp ''status'' \<noteq> JStr ''success''"
    and "\<not> truthy (field resp ''shorturl'')"
  shows "shortenURLHandler c net st keyword =
           ([Put (UpdateShortURL ''ERROR''), ShowWarningMessage (field resp ''message'')], None)
       \<and> shortURL (playground (state_after st (shortenURLHandler c net st keyword))) = Some ''ERROR''
       \<and> warnings (shortenURLHandler c net st keyword) = [field resp ''message'']"
proof -
  have "shortenURLHandler c net st keyword =
           ([Put (UpdateShortURL ''ERROR''), ShowWarningMessage (field resp ''message'')], None)"
    unfolding handler_on_response [OF assms(1-4)]
    using assms(5-7) by (simp add: after_race_def)
  then show ?thesis by (simp add: state_after_def warnings_def)
qed

theorem shorten_application_failure_witness:
  "shortenURLHandler example_constants
     (example_network (Response True (Some (JObj
        [(''status'', JStr ''fail''), (''message'', JStr ''bad keyword'')]))) (Some 120))
     (example_state ''1 + 2;'') ''abc''
   = ([Put (UpdateShortURL ''ERROR''), ShowWarningMessage (JStr ''bad keyword'')], None)"
  using shorten_application_failure
    [OF refl, of "example_network (Response True (Some (JObj
        [(''status'', JStr ''fail''), (''message'', JStr ''bad keyword'')]))) (Some 120)"
       example_constants "example_state ''1 + 2;''" "''abc''" 120]
  by (simp add: example_network_def)

text \<open>
  The degraded success, where the response also delivers the keyword. Let the response
  arrive before the timer, with an \<open>ok\<close> status and a body that parses to \<open>resp\<close>,
  whose \<open>status\<close> is not the string \<open>success\<close>, whose \<open>shorturl\<close> is there (truthy,
  as the handler tests it) and whose \<open>url.keyword\<close> is a string. Then the handler shows
  \<open>resp.message\<close> as a success message and puts \<open>updateShortURL\<close> of the shortener
  base followed by the keyword, and does nothing else.
\<close>

theorem shorten_degraded_success:
  assumes "req = shorten_request c (queryString (playground st)) keyword"
    and "settles_at net req = Some t" and "t < 10000"
    and "fetch net req = Response True (Some resp)"
    and "field resp ''status'' \<noteq> JStr ''success''"
    and "truthy (field resp ''shorturl'')"
    and "field (field resp ''url'') ''keyword'' = JStr delivered"
  shows "shortenURLHandler c net st keyword =
           ([ShowSuccessMessage (field resp ''message''),
             Put (UpdateShortURL (urlShortenerBase c @ delivered))], None)
       \<and> shortURL (playground (state_after st (shortenURLHandler c net st keyword)))
           = Some (urlShortenerBase c @ delivered)"
proof -
  have obj: "truthy resp"
    using assms(6) by (cases resp) auto
  have url: "field resp ''url'' \<noteq> JUndefined" "field resp ''url'' \<noteq> JNull"
    using assms(7) by auto
  have "shortenURLHandler c net st keyword =
           ([ShowSuccessMessage (field resp ''message''),
             Put (UpdateShortURL (urlShortenerBase c @ delivered))], None)"
    unfolding handler_on_response [OF assms(1-4)]
    using obj url assms(5-7) by (simp add: after_race_def get_prop_def)
  then show ?thesis by (simp add: state_after_def)
qed

theorem shorten_degraded_success_witness:
  "shortenURLHandler example_constants
     (example_network (Response True (Some (JObj
        [(''status'', JStr ''fail''), (''code'', JStr ''error:url''),
         (''message'', JStr ''already exists''), (''shorturl'', JStr ''https://sho.rt/abc''),
         (''url'', JObj [(''keyword'', JStr ''abc'')])]))) (Some 120))
     (example_state ''1 + 2;'') ''abc''
   = ([ShowSuccessMessage (JStr ''already exists''),
       Put (UpdateShortURL ''https://sho.rt/abc'')], None)"
  using shorten_degraded_success
    [OF refl, of "example_network (Response True (Some (JObj
        [(''status'', JStr ''fail''), (''code'', JStr ''error:url''),
         (''message'', JStr ''already exists''), (''shorturl'', JStr ''https://sho.rt/abc''),
         (''url'', JObj [(''keyword'', JStr ''abc'')])]))) (Some 120)"
       example_constants "example_state ''1 + 2;''" "''abc''" 120 _ "''abc''"]
  by (simp add: example_network_def example_constants_def)

text \<open>
  C8. Let the response arrive before the timer, with an \<open>ok\<close> status and a body that
  parses to \<open>resp\<close>, whose \<open>status\<close> is the string \<open>success\<close> and whose
  \<open>url.keyword\<close> is the delivered keyword, a string. Then the handler puts
  \<open>updateShortURL\<close> of the shortener base followed by the keyword and does nothing else:
  it shows no warning (and no other notification).
\<close>

theorem shorten_success:
  assumes "req = shorten_request c (queryString (playground st)) keyword"
    and "settles_at net req = Some t" and "t < 10000"
    and "fetch net req = Response True (Some resp)"
    and "field resp ''status'' = JStr ''success''"
    and "field (field resp ''url'') ''keyword'' = JStr delivered"
  shows "shortenURLHandler c net st keyword =
           ([Put (UpdateShortURL (urlShortenerBase c @ delivered))], None)
       \<and> shortURL (playground (state_after st (shortenURLHandler c net st keyword)))
           = Some (urlShortenerBase c @ delivered)
       \<and> warnings (shortenURLHandler c net st keyword) = []"
proof -
  have obj: "truthy resp"
    using assms(5) by (cases resp) auto
  have url: "field resp ''url'' \<noteq> JUndefined" "field resp ''url'' \<noteq> JNull"
    using assms(6) by auto
  have "shortenURLHandler c net st keyword =
           ([Put (UpdateShortURL (urlShortenerBase c @ delivered))], None)"
    unfolding handler_on_response [OF assms(1-4)]
    using obj url assms(5,6) by (simp add: after_race_def get_prop_def)
  then show ?thesis by (simp add: state_after_def warnings_def)
qed

theorem shorten_success_witness:
  "shortenURLHandler example_constants
     (example_network (Response True (Some (JObj
        [(''status'', JStr ''success''), (''url'', JObj [(''keyword'', JStr ''abc'')])])))
        (Some 120))
     (example_state ''1 + 2;'') ''abc''
   = ([Put (UpdateShortURL ''https://sho.rt/abc'')], None)
   \<and> shortURL (playground (example_state ''1 + 2;'')) = Some ''old''"
  using shorten_success
    [OF refl, of "example_network (Response True (Some (JObj
        [(''status'', JStr ''success''), (''url'', JObj [(''keyword'', JStr ''abc'')])])))
        (Some 120)"
       example_constants "example_state ''1 + 2;''" "''abc''" 120 _ "''abc''"]
  by (simp add: example_network_def example_constants_def example_state_def)

section \<open>A response without \<open>url\<close>\<close>

text \<open>
  When the handler goes on to publish a short URL (the status is \<open>success\<close>, or
  \<open>shorturl\<close> is there) and the response has no \<open>url\<close> object, reading
  \<open>resp.url.keyword\<close> raises a \<open>TypeError\<close>. The read is below the \<open>try\<close> block, so
  the exception leaves the handler: no short-URL value is written and no warning is
  shown.
\<close>

lemma shorten_missing_url_escapes:
  assumes "req = shorten_request c (queryString (playground st)) keyword"
    and "settles_at net req = Some t" and "t < 10000"
    and "fetch net req = Response True (Some resp)"
    and "field resp ''status'' = JStr ''success'' \<or> truthy (field resp ''shorturl'')"
    and "field resp ''url'' = JUndefined \<or> field resp ''url'' = JNull"
  shows "snd (shortenURLHandler c net st keyword) = Some TypeError
       \<and> short_url_updates (shortenURLHandler c net st keyword) = []
       \<and> warnings (shortenURLHandler c net st keyword) = []"
proof -
  have obj: "truthy resp"
    using assms(5) by (cases resp) auto
  show ?thesis
    unfolding handler_on_response [OF assms(1-4)]
    using obj assms(5,6)
    by (auto simp: after_race_def get_prop_def short_url_updates_def warnings_def)
qed

text \<open>
  C3 says that no exception escapes the handler, whatever the endpoint returns, responses
  without \<open>url\<close> included. On the response \<open>{"status": "success"}\<close>, arriving after
  120 ms, the handler puts nothing, shows nothing and raises a \<open>TypeError\<close>.
\<close>

theorem shorten_missing_url_raises:
  "shortenURLHandler example_constants
     (example_network (Response True (Some (JObj [(''status'', JStr ''success'')]))) (Some 120))
     (example_state ''1 + 2;'') ''abc'' = ([], Some TypeError)"
  by code_simp

theorem shorten_missing_url_raises_witness:
  "snd (shortenURLHandler example_constants
     (example_network (Response True (Some (JObj [(''status'', JStr ''success'')]))) (Some 120))
     (example_state ''1 + 2;'') ''abc'') = Some TypeError
   \<and> state_after (example_state ''1 + 2;'') (shortenURLHandler example_constants
     (example_network (Response True (Some (JObj [(''status'', JStr ''success'')]))) (Some 120))
     (example_state ''1 + 2;'') ''abc'') = example_state ''1 + 2;''"
  using shorten_missing_url_raises by (simp add: state_after_def)

text \<open>
  C5 says that every response with a status other than \<open>success\<close> and a \<open>shorturl\<close>
  gives a short URL and a success message. On the response
  \<open>{"status": "fail", "shorturl": "https://sho.rt/abc", "message": "m"}\<close>, arriving
  after 120 ms, the handler shows the success message \<open>m\<close> and then raises a
  \<open>TypeError\<close>: no short-URL value is written.
\<close>

theorem shorten_degraded_missing_url_raises:
  "shortenURLHandler example_constants
     (example_network (Response True (Some (JObj
        [(''status'', JStr ''fail''), (''shorturl'', JStr ''https://sho.rt/abc''),
         (''message'', JStr ''m'')]))) (Some 120))
     (example_state ''1 + 2;'') ''abc'' = ([ShowSuccessMessage (JStr ''m'')], Some TypeError)"
  by code_simp

theorem shorten_degraded_missing_url_raises_witness:
  "short_url_updates (shortenURLHandler example_constants
     (example_network (Response True (Some (JObj
        [(''status'', JStr ''fail''), (''shorturl'', JStr ''https://sho.rt/abc''),
         (''message'', JStr ''m'')]))) (Some 120))
     (example_state ''1 + 2;'') ''abc'') = []
   \<and> shortURL (playground (state_after (example_state ''1 + 2;'')
       (shortenURLHandler example_constants
         (example_network (Response True (Some (JObj
            [(''status'', JStr ''fail''), (''shorturl'', JStr ''https://sho.rt/abc''),
             (''message'', JStr ''m'')]))) (Some 120))
         (example_state ''1 + 2;'') ''abc''))) = Some ''old''"
  using shorten_degraded_missing_url_raises
  by (simp add: short_url_updates_def state_after_def example_state_def)

end
